theory Spec2Isabelle
  imports Main "HOL-Library.Log_Nat"
begin

section \<open>Python values used by the handlers\<close>

subsection \<open>Exceptions\<close>

text \<open>
  A handler either returns a value or raises. \<open>HTTPException\<close> carries the status code
  and the detail string (\<open>fastapi.HTTPException\<close>); \<open>PyMongoError\<close> stands for any
  exception raised by a call to the document store; \<open>OverflowError\<close> is what Python raises
  when an \<open>int\<close> too large for a \<open>float\<close> meets a \<open>float\<close> in an arithmetic operation;
  \<open>InvalidId\<close> is raised by \<open>bson.ObjectId\<close> on a malformed id string.
  All of them are subclasses of \<open>Exception\<close>, so \<open>except Exception\<close> catches each one.
\<close>

datatype exn = HTTPException int string | PyMongoError | OverflowError | InvalidId

text \<open>\<open>src/app/utils/error_handling.py\<close>, class \<open>ErrorHandling\<close>.\<close>

definition handle_internal_server_error :: exn where
  "handle_internal_server_error = HTTPException 500 ''Internal Server Error''"

definition handle_not_found_error :: "string \<Rightarrow> exn" where
  "handle_not_found_error resource_name = HTTPException 404 (resource_name @ '' not found'')"

text \<open>\<open>try: body  except Exception as e: handler\<close>.\<close>

definition try_except :: "exn + 'a \<Rightarrow> (exn \<Rightarrow> exn + 'a) \<Rightarrow> exn + 'a" where
  "try_except body handler = (case body of Inl x \<Rightarrow> handler x | Inr v \<Rightarrow> Inr v)"

subsection \<open>Decimal rendering of an int in an f-string\<close>

definition digit_char :: "nat \<Rightarrow> char" where
  "digit_char n = ''0123456789'' ! (n mod 10)"

fun str_nat :: "nat \<Rightarrow> string" where
  "str_nat n = (if n < 10 then [digit_char n] else str_nat (n div 10) @ [digit_char n])"

definition str_int :: "int \<Rightarrow> string" where
  "str_int i = (if i < 0 then CHR ''-'' # str_nat (nat (- i)) else str_nat (nat i))"

subsection \<open>Floats: IEEE 754 binary64 with round-to-nearest, ties to even\<close>

text \<open>
  A Python \<open>float\<close> is a binary64 number. A finite one is kept as its sign bit and the
  exact rational magnitude it denotes; the other values are the two infinities and NaN.
\<close>

datatype pyfloat = Finite bool rat | Infinity bool | NaN

definition pow2 :: "int \<Rightarrow> rat" where
  "pow2 e = (if 0 \<le> e then 2 ^ nat e else 1 / 2 ^ nat (- e))"

text \<open>The binary exponent \<open>\<lfloor>log\<^sub>2 r\<rfloor>\<close> of a positive rational, from the bit lengths of its
  numerator and denominator.\<close>

definition ilog2 :: "rat \<Rightarrow> int" where
  "ilog2 r = (case quotient_of r of (p, q) \<Rightarrow>
     (let d = bitlen p - bitlen q in if pow2 d \<le> r then d else d - 1))"

definition round_half_even :: "rat \<Rightarrow> int" where
  "round_half_even x = (let f = \<lfloor>x\<rfloor>; d = x - of_int f in
     if d < 1 / 2 then f else if 1 / 2 < d then f + 1 else if even f then f else f + 1)"

text \<open>Rounding a non-negative rational to the binary64 grid: 53 significant bits, the
  exponent not below \<open>-1022\<close> (subnormals share the spacing \<open>2\<^sup>-\<^sup>1\<^sup>0\<^sup>7\<^sup>4\<close>). The result may be
  \<open>2\<^sup>1\<^sup>0\<^sup>2\<^sup>4\<close> or more, which is overflow.\<close>

definition round_mag :: "rat \<Rightarrow> rat" where
  "round_mag r = (if r = 0 then 0 else
     (let e = max (ilog2 r) (- 1022); u = pow2 (e - 52)
      in of_int (round_half_even (r / u)) * u))"

definition overflows :: "rat \<Rightarrow> bool" where
  "overflows m \<longleftrightarrow> m \<noteq> 0 \<and> 1024 \<le> ilog2 m"

text \<open>\<open>float.__mul__\<close> on two floats.\<close>

fun fmul :: "pyfloat \<Rightarrow> pyfloat \<Rightarrow> pyfloat" where
  "fmul NaN _ = NaN"
| "fmul _ NaN = NaN"
| "fmul (Infinity s) (Infinity t) = Infinity (s \<noteq> t)"
| "fmul (Infinity s) (Finite t m) = (if m = 0 then NaN else Infinity (s \<noteq> t))"
| "fmul (Finite s m) (Infinity t) = (if m = 0 then NaN else Infinity (s \<noteq> t))"
| "fmul (Finite s m) (Finite t n) =
     (let r = round_mag (m * n) in if overflows r then Infinity (s \<noteq> t) else Finite (s \<noteq> t) r)"

text \<open>The conversion Python applies to the \<open>int\<close> operand of \<open>float * int\<close>: correctly
  rounded, and \<open>OverflowError\<close> when the result would not be finite.\<close>

definition float_int :: "int \<Rightarrow> pyfloat" where
  "float_int n = Finite (n < 0) (round_mag (of_int \<bar>n\<bar>))"

definition float_of_int :: "int \<Rightarrow> exn + pyfloat" where
  "float_of_int n =
     (if overflows (round_mag (of_int \<bar>n\<bar>)) then Inl OverflowError else Inr (float_int n))"

text \<open>The integers a document of the store can hold: 64 bits, signed.\<close>

definition int64 :: "int \<Rightarrow> bool" where
  "int64 n \<longleftrightarrow> - (2 ^ 63) \<le> n \<and> n < 2 ^ 63"

text \<open>A decimal literal of the source denotes the binary64 number nearest to it.\<close>

definition float_literal :: "rat \<Rightarrow> pyfloat" where
  "float_literal r = Finite False (round_mag r)"

section \<open>Data model\<close>

text \<open>\<open>src/app/models/Sales.py\<close>, class \<open>Sale\<close>. The field \<open>total\<close> is named \<open>total_s\<close>
  here.\<close>

record Sale =
  invoice_id :: string
  branch :: string
  city :: string
  customer_type :: string
  gender :: string
  product_line :: string
  unit_price :: pyfloat
  quantity :: int
  tax_5_percent :: pyfloat
  total_s :: pyfloat
  date :: string
  time :: string
  payment :: string
  cogs :: pyfloat
  gross_margin_percentage :: pyfloat
  gross_income :: pyfloat
  rating :: pyfloat

text \<open>
  An inventory document as the store holds it: the \<open>_id\<close> the store gave it (an
  \<open>ObjectId\<close> of twelve bytes, kept as 24 hexadecimal digit values, or a string), and the
  fields of \<open>InventoryCreate\<close> in \<open>src/app/models/Inventory.py\<close>.
\<close>

datatype doc_id = Oid "nat list" | StrId string

record inventory_doc =
  mongo_id :: doc_id
  Products :: string
  Quantity :: int

text \<open>\<open>InventoryUpdate\<close>, for a request whose supplied fields carry values: \<open>None\<close> is a
  field the request did not supply (\<open>dict(exclude_unset=True)\<close> leaves it out of the
  \<open>$set\<close>). A field supplied as JSON \<open>null\<close> is kept by \<open>exclude_unset\<close> and \<open>$set\<close> to
  \<open>null\<close>; the inventory documents here hold a string and an int, so a request of that
  kind has no counterpart in this record.\<close>

record InventoryUpdate =
  upd_Products :: "string option"
  upd_Quantity :: "int option"

section \<open>The document store\<close>

text \<open>
  \<open>src/app/utils/database.py\<close> opens two collections. A collection is the list of its
  documents in natural order. The driver is not part of the repository: what it does
  beyond reading and writing the lists is a parameter, the environment \<open>env\<close>, which
  says for each kind of call whether it raises, whether \<open>insert_one\<close> reports an inserted
  id, and what the two readings of the clock in \<open>add_new_sale\<close> format to.
\<close>

record database =
  inventory_collection :: "inventory_doc list"
  sales_collection :: "Sale list"

datatype storage_call =
  Find_one | Find | Update_one | Insert_one | Delete_one | Count_documents | Aggregate | Distinct

record env =
  strftime_date :: string
  strftime_time :: string
  raises :: "storage_call \<Rightarrow> bool"
  inserted_id :: bool

text \<open>\<open>collection.find_one(filter)\<close>: the first matching document, or \<open>None\<close>.\<close>

definition find_one :: "env \<Rightarrow> ('d \<Rightarrow> bool) \<Rightarrow> 'd list \<Rightarrow> exn + 'd option" where
  "find_one e flt docs = (if raises e Find_one then Inl PyMongoError else Inr (List.find flt docs))"

text \<open>\<open>collection.find(filter).to_list(length=n)\<close>.\<close>

definition find_to_list :: "env \<Rightarrow> ('d \<Rightarrow> bool) \<Rightarrow> nat \<Rightarrow> 'd list \<Rightarrow> exn + 'd list" where
  "find_to_list e flt n docs =
     (if raises e Find then Inl PyMongoError else Inr (take n (filter flt docs)))"

text \<open>\<open>collection.update_one(filter, {"$set": ...})\<close>: the first matching document is
  rewritten; the result carries \<open>modified_count\<close>, which is 1 only when a document matched
  and the update changed it.\<close>

fun update_first :: "('d \<Rightarrow> bool) \<Rightarrow> ('d \<Rightarrow> 'd) \<Rightarrow> 'd list \<Rightarrow> 'd list" where
  "update_first flt f [] = []"
| "update_first flt f (d # ds) = (if flt d then f d # ds else d # update_first flt f ds)"

definition modified_count :: "('d \<Rightarrow> bool) \<Rightarrow> ('d \<Rightarrow> 'd) \<Rightarrow> 'd list \<Rightarrow> nat" where
  "modified_count flt f docs =
     (case List.find flt docs of None \<Rightarrow> 0 | Some d \<Rightarrow> if f d = d then 0 else 1)"

definition update_one ::
  "env \<Rightarrow> ('d \<Rightarrow> bool) \<Rightarrow> ('d \<Rightarrow> 'd) \<Rightarrow> 'd list \<Rightarrow> exn + (nat \<times> 'd list)" where
  "update_one e flt f docs =
     (if raises e Update_one then Inl PyMongoError
      else Inr (modified_count flt f docs, update_first flt f docs))"

text \<open>\<open>collection.insert_one(doc)\<close>: the document is appended and the result carries its
  id; when the driver reports no id, nothing was stored.\<close>

definition insert_one :: "env \<Rightarrow> 'd \<Rightarrow> 'd list \<Rightarrow> exn + (bool \<times> 'd list)" where
  "insert_one e doc docs =
     (if raises e Insert_one then Inl PyMongoError
      else if inserted_id e then Inr (True, docs @ [doc]) else Inr (False, docs))"







datatype number = Int_value int | Double_value pyfloat | Null_value






section \<open>\<open>src/app/routes/Sales.py\<close>\<close>








text \<open>
  \<open>add_new_sale\<close>. The handler has no \<open>try\<close>; every raise leaves it. The result pairs
  what the handler returns or raises with the database it leaves behind.
\<close>

definition add_new_sale :: "env \<Rightarrow> database \<Rightarrow> Sale \<Rightarrow> (exn + Sale) \<times> database" where
  "add_new_sale e db sale0 =
    (let sale = sale0\<lparr>date := strftime_date e, time := strftime_time e\<rparr> in
     case find_one e (\<lambda>d. Products d = product_line sale) (inventory_collection db) of
       Inl x \<Rightarrow> (Inl x, db)
     | Inr None \<Rightarrow> (Inl (handle_not_found_error ''Product''), db)
     | Inr (Some product_in_inventory) \<Rightarrow>
         if Quantity product_in_inventory < quantity sale
         then (Inl (HTTPException 404 ''Insufficient quantity in inventory''), db)
         else
          (case float_of_int (quantity sale) of
             Inl x \<Rightarrow> (Inl x, db)
           | Inr q \<Rightarrow>
              (let sale = sale\<lparr>total_s := fmul (fmul (unit_price sale) q) (float_literal (95 / 100))\<rparr>;
                   sale = sale\<lparr>tax_5_percent :=
                            fmul (fmul (unit_price sale) q) (float_literal (5 / 100))\<rparr>;
                   updated_quantity = Quantity product_in_inventory - quantity sale in
               case update_one e (\<lambda>d. Products d = product_line sale)
                      (\<lambda>d. d\<lparr>Quantity := updated_quantity\<rparr>) (inventory_collection db) of
                 Inl x \<Rightarrow> (Inl x, db)
               | Inr (_, docs) \<Rightarrow>
                  (let db = db\<lparr>inventory_collection := docs\<rparr> in
                   case insert_one e sale (sales_collection db) of
                     Inl x \<Rightarrow> (Inl x, db)
                   | Inr (has_id, sales) \<Rightarrow>
                       if has_id then (Inr sale, db\<lparr>sales_collection := sales\<rparr>)
                       else (Inl (HTTPException 500 ''Failed to add sale''),
                             db\<lparr>sales_collection := sales\<rparr>)))))"

section \<open>\<open>src/app/routes/Inventory.py\<close>\<close>

text \<open>\<open>InventoryErrorHandler.handle_quantity_warning\<close> in
  \<open>src/app/utils/error_handling.py\<close>: it raises when the quantity is below ten.\<close>

definition handle_quantity_warning :: "int \<Rightarrow> string \<Rightarrow> exn + unit" where
  "handle_quantity_warning qty product =
     (if qty < 10
      then Inl (HTTPException 200
             (''Warning: Product ('' @ product @ '') quantity is low. Current quantity: ''
              @ str_int qty))
      else Inr ())"

text \<open>The loop of \<open>check_low_quantity_warning\<close>: append the entry, then call the
  warning handler; a raise ends the loop and the handler.\<close>

fun warning_loop :: "inventory_doc list \<Rightarrow> (string \<times> int) list \<Rightarrow> exn + (string \<times> int) list" where
  "warning_loop [] warning_messages = Inr warning_messages"
| "warning_loop (item # items) warning_messages =
     (let warning_messages = warning_messages @ [(Products item, Quantity item)] in
      case handle_quantity_warning (Quantity item) (Products item) of
        Inl x \<Rightarrow> Inl x
      | Inr _ \<Rightarrow> warning_loop items warning_messages)"

text \<open>\<open>check_low_quantity_warning\<close>: no \<open>try\<close>; the value returned is the list under the
  key \<open>low_quantity_items\<close>, each entry a product name and a quantity.\<close>

definition check_low_quantity_warning :: "env \<Rightarrow> database \<Rightarrow> exn + (string \<times> int) list" where
  "check_low_quantity_warning e db =
     (case find_to_list e (\<lambda>d. Quantity d < 10) 100 (inventory_collection db) of
        Inl x \<Rightarrow> Inl x
      | Inr low_quantity_items \<Rightarrow> warning_loop low_quantity_items [])"

text \<open>\<open>get_item\<close>: the filter compares \<open>_id\<close> with the path parameter, a string; the
  not-found exception is raised inside the \<open>try\<close>.\<close>

definition get_item :: "env \<Rightarrow> database \<Rightarrow> string \<Rightarrow> exn + inventory_doc" where
  "get_item e db item_id =
     try_except
       (case find_one e (\<lambda>d. mongo_id d = StrId item_id) (inventory_collection db) of
          Inl x \<Rightarrow> Inl x
        | Inr (Some item) \<Rightarrow> Inr item
        | Inr None \<Rightarrow> Inl (handle_not_found_error ''Item''))
       (\<lambda>_. Inl handle_internal_server_error)"

text \<open>\<open>bson.ObjectId(item_id)\<close> on a string: 24 hexadecimal digits, or \<open>InvalidId\<close>.\<close>

definition hex_digit :: "char \<Rightarrow> nat option" where
  "hex_digit c = map_of (zip ''0123456789abcdefABCDEF''
     [0, 1, 2, 3, 4, 5, 6, 7, 8, 9, 10, 11, 12, 13, 14, 15, 10, 11, 12, 13, 14, 15]) c"

definition ObjectId :: "string \<Rightarrow> exn + doc_id" where
  "ObjectId s =
     (if length s = 24
      then (case those (map hex_digit s) of None \<Rightarrow> Inl InvalidId | Some ds \<Rightarrow> Inr (Oid ds))
      else Inl InvalidId)"

text \<open>The \<open>$set\<close> of \<open>update_inventory\<close>: only the supplied fields.\<close>

definition set_fields :: "InventoryUpdate \<Rightarrow> inventory_doc \<Rightarrow> inventory_doc" where
  "set_fields updated_item d =
     d\<lparr>Products := (case upd_Products updated_item of None \<Rightarrow> Products d | Some v \<Rightarrow> v),
       Quantity := (case upd_Quantity updated_item of None \<Rightarrow> Quantity d | Some v \<Rightarrow> v)\<rparr>"

text \<open>\<open>update_inventory\<close>: the whole body is inside \<open>try\<close>; what the store has written
  before a raise stays written.\<close>

definition update_inventory ::
  "env \<Rightarrow> database \<Rightarrow> string \<Rightarrow> InventoryUpdate \<Rightarrow> (exn + string) \<times> database" where
  "update_inventory e db item_id updated_item =
     (case ObjectId item_id of
        Inl x \<Rightarrow> (try_except (Inl x) (\<lambda>_. Inl handle_internal_server_error), db)
      | Inr object_id \<Rightarrow>
         (case update_one e (\<lambda>d. mongo_id d = object_id) (set_fields updated_item)
                 (inventory_collection db) of
            Inl x \<Rightarrow> (try_except (Inl x) (\<lambda>_. Inl handle_internal_server_error), db)
          | Inr (n, docs) \<Rightarrow>
             (try_except
                (if n > 0 then Inr ''Item updated successfully''
                 else Inl (handle_not_found_error ''Item''))
                (\<lambda>_. Inl handle_internal_server_error),
              db\<lparr>inventory_collection := docs\<rparr>)))"








section \<open>Sample inputs\<close>

definition quiet :: env where
  "quiet = \<lparr>strftime_date = ''11/04/2026'', strftime_time = ''09:30:00'',
            raises = (\<lambda>_. False), inserted_id = True\<rparr>"

definition widget :: inventory_doc where
  "widget = \<lparr>mongo_id = Oid [6, 5, 4, 10, 0, 1, 0, 2, 0, 3, 0, 4, 0, 5, 0, 6, 0, 7, 0, 8, 0, 9, 0, 10],
             Products = ''Widget'', Quantity = 5\<rparr>"

definition crate :: inventory_doc where
  "crate = \<lparr>mongo_id = StrId ''crate-1'', Products = ''Crate'', Quantity = 40\<rparr>"

definition shop :: database where
  "shop = \<lparr>inventory_collection = [crate, widget], sales_collection = []\<rparr>"

definition order :: Sale where
  "order = \<lparr>invoice_id = ''750-67-8428'', branch = ''A'', city = ''Yangon'',
            customer_type = ''Member'', gender = ''Female'', product_line = ''Widget'',
            unit_price = Finite False 10, quantity = 3,
            tax_5_percent = Finite False 0, total_s = Finite False 0,
            date = ''1/5/2019'', time = ''13:08'', payment = ''Ewallet'',
            cogs = Finite False 0, gross_margin_percentage = Finite False 0,
            gross_income = Finite False 0, rating = Finite False 9\<rparr>"


section \<open>Facts about the float model\<close>

lemma pow2_powi: "pow2 e = power_int 2 e"
  by (simp add: pow2_def power_int_def field_simps)

lemma pow2_pos: "0 < pow2 e"
  by (simp add: pow2_powi zero_less_power_int)

lemma pow2_mono: "a \<le> b \<Longrightarrow> pow2 a \<le> pow2 b"
  by (simp add: pow2_powi power_int_increasing)

lemma pow2_of_nat: "pow2 (int n) = 2 ^ n"
  by (simp add: pow2_def)

lemma ilog2_lower:
  assumes "0 < r"
  shows "pow2 (ilog2 r) \<le> r"
proof -
  obtain p q where pq: "quotient_of r = (p, q)" by (cases "quotient_of r")
  have q: "0 < q" using pq by (rule quotient_of_denom_pos)
  have r: "r = of_int p / of_int q" using pq by (rule quotient_of_div)
  have p: "0 < p" using assms q r by (simp add: zero_less_divide_iff)
  let ?d = "bitlen p - bitlen q"
  have bp: "1 \<le> bitlen p" using p by (simp add: bitlen_ge_iff_power)
  have bq: "0 \<le> bitlen q" by (rule bitlen_nonneg)
  have lo: "(2::int) ^ nat (bitlen p - 1) \<le> p" using bitlen_bounds [OF p] by simp
  have hi: "q \<le> 2 ^ nat (bitlen q)" using bitlen_bounds [OF q] by simp
  have lo': "pow2 (bitlen p - 1) \<le> of_int p"
  proof -
    have "pow2 (bitlen p - 1) = of_int (2 ^ nat (bitlen p - 1))"
      using bp by (simp add: pow2_def)
    also have "\<dots> \<le> of_int p" using lo by (simp only: of_int_le_iff)
    finally show ?thesis .
  qed
  have hi': "of_int q \<le> pow2 (bitlen q)"
  proof -
    have "(of_int q :: rat) \<le> of_int (2 ^ nat (bitlen q))" using hi by (simp only: of_int_le_iff)
    also have "\<dots> = pow2 (bitlen q)" using bq by (simp add: pow2_def)
    finally show ?thesis .
  qed
  have "pow2 (?d - 1) = pow2 (bitlen p - 1) / pow2 (bitlen q)"
    by (simp add: pow2_powi power_int_diff [symmetric] algebra_simps)
  also have "\<dots> \<le> of_int p / of_int q"
    using lo' hi' q pow2_pos [of "bitlen p - 1"] by (intro frac_le) simp_all
  finally have "pow2 (?d - 1) \<le> r" using r by simp
  then show ?thesis using pq by (simp add: ilog2_def Let_def)
qed

lemma ilog2_less:
  assumes "0 < r" and "r < pow2 k"
  shows "ilog2 r < k"
proof (rule ccontr)
  assume "\<not> ilog2 r < k"
  then have "pow2 k \<le> pow2 (ilog2 r)" by (simp add: pow2_mono)
  also have "\<dots> \<le> r" using assms(1) by (rule ilog2_lower)
  finally show False using assms(2) by simp
qed

lemma round_half_even_le: "of_int (round_half_even x) \<le> x + 1"
proof -
  have "round_half_even x \<le> \<lfloor>x\<rfloor> + 1" by (simp add: round_half_even_def Let_def)
  then have "of_int (round_half_even x) \<le> (of_int (\<lfloor>x\<rfloor> + 1) :: rat)"
    by (simp only: of_int_le_iff)
  also have "\<dots> \<le> x + 1" by simp
  finally show ?thesis .
qed

lemma round_half_even_nonneg: "0 \<le> x \<Longrightarrow> 0 \<le> round_half_even x"
  by (auto simp: round_half_even_def Let_def)

lemma round_mag_nonneg: "0 \<le> r \<Longrightarrow> 0 \<le> round_mag r"
  using pow2_pos
  by (auto simp: round_mag_def Let_def intro!: mult_nonneg_nonneg round_half_even_nonneg
        simp: less_imp_le)

lemma round_mag_upper:
  assumes "0 < r"
  shows "round_mag r \<le> r + pow2 (max (ilog2 r) (- 1022) - 52)"
proof -
  let ?u = "pow2 (max (ilog2 r) (- 1022) - 52)"
  have u: "0 < ?u" by (rule pow2_pos)
  have "of_int (round_half_even (r / ?u)) * ?u \<le> (r / ?u + 1) * ?u"
    using u round_half_even_le [of "r / ?u"] by (intro mult_right_mono) simp_all
  also have "\<dots> = r + ?u" using u by (simp add: field_simps)
  finally show ?thesis using assms by (simp add: round_mag_def Let_def)
qed

lemma no_overflow_int64:
  assumes "\<bar>n\<bar> \<le> 2 ^ 63"
  shows "\<not> overflows (round_mag (of_int \<bar>n\<bar>))"
proof (cases "n = 0")
  case True
  then show ?thesis by (simp add: round_mag_def overflows_def)
next
  case False
  let ?r = "of_int \<bar>n\<bar> :: rat"
  have r0: "0 < ?r" using False by simp
  have r63: "?r \<le> pow2 63"
  proof -
    have "?r \<le> of_int (2 ^ 63)" using assms by (simp only: of_int_le_iff)
    then show ?thesis by (simp add: pow2_def)
  qed
  have "?r < pow2 64" using r63 by (simp add: pow2_def)
  then have "ilog2 ?r < 64" using r0 by (intro ilog2_less)
  then have "max (ilog2 ?r) (- 1022) - 52 \<le> 11" by simp
  then have "pow2 (max (ilog2 ?r) (- 1022) - 52) \<le> pow2 11" by (rule pow2_mono)
  then have "round_mag ?r \<le> pow2 63 + pow2 11"
    using round_mag_upper [OF r0] r63 by linarith
  also have "\<dots> < pow2 64" by (simp add: pow2_def)
  also have "\<dots> \<le> pow2 1024" by (rule pow2_mono) simp
  finally have lt: "round_mag ?r < pow2 1024" .
  show ?thesis
  proof (cases "round_mag ?r = 0")
    case True
    then show ?thesis by (simp add: overflows_def)
  next
    case False
    then have "0 < round_mag ?r" using round_mag_nonneg [of ?r] r0 by simp
    then have "ilog2 (round_mag ?r) < 1024" using lt by (rule ilog2_less)
    then show ?thesis by (simp add: overflows_def)
  qed
qed


lemma float_of_int_int64:
  assumes "int64 n"
  shows "float_of_int n = Inr (float_int n)"
proof -
  have "\<bar>n\<bar> \<le> 2 ^ 63" using assms by (simp add: int64_def abs_le_iff)
  then have "\<not> overflows (round_mag (of_int \<bar>n\<bar>))" by (rule no_overflow_int64)
  then show ?thesis by (simp add: float_of_int_def)
qed

text \<open>Products and quotients the claims name, computed in the model.\<close>

lemma float_int_3: "float_int 3 = Finite False 3"
  by code_simp

lemma total_of_10_by_3:
  "fmul (fmul (Finite False 10) (Finite False 3)) (float_literal (95 / 100)) = Finite False (57 / 2)"
  by code_simp

lemma tax_of_10_by_3:
  "fmul (fmul (Finite False 10) (Finite False 3)) (float_literal (5 / 100)) = Finite False (3 / 2)"
  by code_simp

section \<open>Properties of the sale workflow\<close>

lemma find_update_first:
  assumes "List.find flt docs = Some item" and "flt (f item)"
  shows "List.find flt (update_first flt f docs) = Some (f item)"
  using assms by (induction docs) (auto split: if_splits)

lemma add_new_sale_reaches_update:
  assumes "\<not> raises e Find_one"
    and "List.find (\<lambda>d. Products d = product_line sale) (inventory_collection db) = Some item"
    and "\<not> Quantity item < quantity sale"
    and "int64 (quantity sale)"
    and "\<not> raises e Update_one"
  shows "add_new_sale e db sale =
    (let sale' = sale\<lparr>date := strftime_date e, time := strftime_time e,
               total_s := fmul (fmul (unit_price sale) (float_int (quantity sale))) (float_literal (95 / 100)),
               tax_5_percent := fmul (fmul (unit_price sale) (float_int (quantity sale))) (float_literal (5 / 100))\<rparr>;
         db' = db\<lparr>inventory_collection :=
                update_first (\<lambda>d. Products d = product_line sale)
                  (\<lambda>d. d\<lparr>Quantity := Quantity item - quantity sale\<rparr>) (inventory_collection db)\<rparr>
     in if raises e Insert_one then (Inl PyMongoError, db')
        else if inserted_id e then (Inr sale', db'\<lparr>sales_collection := sales_collection db @ [sale']\<rparr>)
        else (Inl (HTTPException 500 ''Failed to add sale''), db'))"
  using assms
  by (simp add: add_new_sale_def find_one_def update_one_def insert_one_def
      float_of_int_int64 Let_def)

lemma find_one_ok:
  "\<not> raises e Find_one \<Longrightarrow> find_one e flt docs = Inr (List.find flt docs)"
  by (simp add: find_one_def)

text \<open>
  Claim C3. When the lookup by product name comes back without a document, the handler
  raises \<open>HTTPException(404, "Product not found")\<close> and both collections are as they were.
\<close>

theorem add_new_sale_product_not_found:
  assumes "\<not> raises e Find_one"
    and "List.find (\<lambda>d. Products d = product_line sale) (inventory_collection db) = None"
  shows "add_new_sale e db sale = (Inl (HTTPException 404 ''Product not found''), db)"
  using assms by (simp add: add_new_sale_def find_one_def handle_not_found_error_def)

theorem add_new_sale_product_not_found_witness:
  "\<not> raises quiet Find_one
   \<and> List.find (\<lambda>d. Products d = product_line (order\<lparr>product_line := ''Anvil''\<rparr>))
         (inventory_collection shop) = None
   \<and> add_new_sale quiet shop (order\<lparr>product_line := ''Anvil''\<rparr>)
       = (Inl (HTTPException 404 ''Product not found''), shop)"
  using add_new_sale_product_not_found [of quiet "order\<lparr>product_line := ''Anvil''\<rparr>" shop]
  by (simp add: quiet_def shop_def crate_def widget_def)

lemma set_update_first:
  assumes "List.find flt docs = Some item"
  shows "set (update_first flt f docs) \<subseteq> insert (f item) (set docs)"
  using assms by (induction docs) (auto split: if_splits)

text \<open>
  Claim C1. When the product is in the inventory with enough stock, every storage call
  succeeds and the quantity is a 64-bit integer, the sale that is stored and returned has
  \<open>total = unit_price * quantity * 0.95\<close> and \<open>tax_5_percent = unit_price * quantity * 0.05\<close>
  in binary64 arithmetic, whatever the request carried in those fields; the matched
  inventory document loses exactly \<open>quantity\<close>. With a unit price of 10 and a quantity of
  3 the total is 28.5, the tax 1.5 and the stock goes down by 3.
\<close>

theorem add_new_sale_derived_fields:
  assumes "\<not> raises e Find_one" and "\<not> raises e Update_one" and "\<not> raises e Insert_one"
    and "inserted_id e"
    and "List.find (\<lambda>d. Products d = product_line sale) (inventory_collection db) = Some item"
    and "\<not> Quantity item < quantity sale"
    and "int64 (quantity sale)"
  shows "\<exists>sale' db'. add_new_sale e db sale = (Inr sale', db')
    \<and> total_s sale' =
        fmul (fmul (unit_price sale) (float_int (quantity sale))) (float_literal (95 / 100))
    \<and> tax_5_percent sale' =
        fmul (fmul (unit_price sale) (float_int (quantity sale))) (float_literal (5 / 100))
    \<and> sales_collection db' = sales_collection db @ [sale']
    \<and> List.find (\<lambda>d. Products d = product_line sale) (inventory_collection db')
        = Some (item\<lparr>Quantity := Quantity item - quantity sale\<rparr>)
    \<and> (unit_price sale = Finite False 10 \<and> quantity sale = 3 \<longrightarrow>
         total_s sale' = Finite False (57 / 2) \<and> tax_5_percent sale' = Finite False (3 / 2)
         \<and> List.find (\<lambda>d. Products d = product_line sale) (inventory_collection db')
            = Some (item\<lparr>Quantity := Quantity item - 3\<rparr>))"
proof -
  let ?flt = "\<lambda>d. Products d = product_line sale"
  let ?total = "fmul (fmul (unit_price sale) (float_int (quantity sale))) (float_literal (95 / 100))"
  let ?tax = "fmul (fmul (unit_price sale) (float_int (quantity sale))) (float_literal (5 / 100))"
  let ?sale' = "sale\<lparr>date := strftime_date e, time := strftime_time e,
                  total_s := ?total, tax_5_percent := ?tax\<rparr>"
  let ?docs = "update_first ?flt (\<lambda>d. d\<lparr>Quantity := Quantity item - quantity sale\<rparr>)
                 (inventory_collection db)"
  let ?db' = "db\<lparr>inventory_collection := ?docs, sales_collection := sales_collection db @ [?sale']\<rparr>"
  have run: "add_new_sale e db sale = (Inr ?sale', ?db')"
    using add_new_sale_reaches_update [OF assms(1) assms(5) assms(6) assms(7) assms(2)] assms(3,4)
    by (simp add: Let_def del: fmul.simps)
  have m: "?flt (item\<lparr>Quantity := Quantity item - quantity sale\<rparr>)"
    using assms(5) by (auto dest: find_Some_iff [THEN iffD1])
  have f: "List.find ?flt ?docs = Some (item\<lparr>Quantity := Quantity item - quantity sale\<rparr>)"
    using assms(5) m by (rule find_update_first)
  have c: "?total = Finite False (57 / 2) \<and> ?tax = Finite False (3 / 2)"
    if "unit_price sale = Finite False 10 \<and> quantity sale = 3"
    using that by (simp only: float_int_3 total_of_10_by_3 tax_of_10_by_3)
  have "total_s ?sale' = ?total" "tax_5_percent ?sale' = ?tax" by simp_all
  moreover have "sales_collection ?db' = sales_collection db @ [?sale']" by simp
  moreover have "List.find ?flt (inventory_collection ?db')
      = Some (item\<lparr>Quantity := Quantity item - quantity sale\<rparr>)"
    using f by simp
  moreover have "unit_price sale = Finite False 10 \<and> quantity sale = 3 \<longrightarrow>
         total_s ?sale' = Finite False (57 / 2) \<and> tax_5_percent ?sale' = Finite False (3 / 2)
         \<and> List.find ?flt (inventory_collection ?db') = Some (item\<lparr>Quantity := Quantity item - 3\<rparr>)"
  proof
    assume h: "unit_price sale = Finite False 10 \<and> quantity sale = 3"
    have "List.find ?flt ?docs = Some (item\<lparr>Quantity := Quantity item - 3\<rparr>)"
      using f h by simp
    then show "total_s ?sale' = Finite False (57 / 2) \<and> tax_5_percent ?sale' = Finite False (3 / 2)
         \<and> List.find ?flt (inventory_collection ?db') = Some (item\<lparr>Quantity := Quantity item - 3\<rparr>)"
      using c [OF h] by (simp del: fmul.simps)
  qed
  ultimately show ?thesis using run by blast
qed

theorem add_new_sale_derived_fields_witness:
  "\<exists>sale' db'. add_new_sale quiet shop order = (Inr sale', db')
    \<and> total_s sale' = Finite False (57 / 2) \<and> tax_5_percent sale' = Finite False (3 / 2)
    \<and> sales_collection db' = [sale']
    \<and> List.find (\<lambda>d. Products d = ''Widget'') (inventory_collection db')
        = Some (widget\<lparr>Quantity := 2\<rparr>)"
proof -
  have "\<not> raises quiet Find_one" "\<not> raises quiet Update_one" "\<not> raises quiet Insert_one"
    "inserted_id quiet" by (simp_all add: quiet_def)
  moreover have "List.find (\<lambda>d. Products d = product_line order) (inventory_collection shop)
      = Some widget"
    by (simp add: shop_def order_def crate_def widget_def)
  moreover have "\<not> Quantity widget < quantity order" by (simp add: widget_def order_def)
  moreover have "int64 (quantity order)" by (simp add: int64_def order_def)
  ultimately obtain sale' db' where
    r: "add_new_sale quiet shop order = (Inr sale', db')"
      "sales_collection db' = sales_collection shop @ [sale']"
      "unit_price order = Finite False 10 \<and> quantity order = 3 \<longrightarrow>
         total_s sale' = Finite False (57 / 2) \<and> tax_5_percent sale' = Finite False (3 / 2)
         \<and> List.find (\<lambda>d. Products d = product_line order) (inventory_collection db')
            = Some (widget\<lparr>Quantity := Quantity widget - 3\<rparr>)"
    using add_new_sale_derived_fields [of quiet order shop widget] by blast
  have "unit_price order = Finite False 10 \<and> quantity order = 3" by (simp add: order_def)
  with r show ?thesis by (simp add: order_def shop_def widget_def)
qed

text \<open>
  Claim C2, as the code has it. When the matched document holds less than the requested
  quantity, the handler raises \<open>HTTPException(404, "Insufficient quantity in inventory")\<close>,
  a fixed detail string, and both collections are as they were.
\<close>

theorem add_new_sale_insufficient:
  assumes "\<not> raises e Find_one"
    and "List.find (\<lambda>d. Products d = product_line sale) (inventory_collection db) = Some item"
    and "Quantity item < quantity sale"
  shows "add_new_sale e db sale
    = (Inl (HTTPException 404 ''Insufficient quantity in inventory''), db)"
  using assms by (simp add: add_new_sale_def find_one_def)

theorem add_new_sale_insufficient_witness:
  "\<not> raises quiet Find_one
   \<and> List.find (\<lambda>d. Products d = product_line (order\<lparr>quantity := 6\<rparr>))
        (inventory_collection shop) = Some widget
   \<and> Quantity widget < quantity (order\<lparr>quantity := 6\<rparr>)
   \<and> add_new_sale quiet shop (order\<lparr>quantity := 6\<rparr>)
       = (Inl (HTTPException 404 ''Insufficient quantity in inventory''), shop)"
  using add_new_sale_insufficient [of quiet "order\<lparr>quantity := 6\<rparr>" shop widget]
  by (simp add: quiet_def shop_def order_def crate_def widget_def)

text \<open>
  Claim C2 as stated fails: the condition raised carries no quantities. A request for 6
  of a product with 5 in stock and a request for 41 of a product with 40 in stock raise
  the same exception value.
\<close>

theorem add_new_sale_insufficient_carries_no_quantities:
  "fst (add_new_sale quiet shop (order\<lparr>quantity := 6\<rparr>))
     = Inl (HTTPException 404 ''Insufficient quantity in inventory'')
   \<and> fst (add_new_sale quiet shop (order\<lparr>product_line := ''Crate'', quantity := 41\<rparr>))
     = Inl (HTTPException 404 ''Insufficient quantity in inventory'')"
  by (simp add: add_new_sale_def find_one_def quiet_def shop_def order_def crate_def widget_def)

text \<open>
  Claim C4. When the lookup, the stock check and the inventory update go through and the
  insert then fails (it raises, or reports no inserted id), the handler raises, the
  sales collection is as it was, and the inventory keeps the decremented quantity: the
  handler writes nothing back and calls the insert once.
\<close>

theorem add_new_sale_insert_failure:
  assumes "\<not> raises e Find_one"
    and "List.find (\<lambda>d. Products d = product_line sale) (inventory_collection db) = Some item"
    and "\<not> Quantity item < quantity sale"
    and "int64 (quantity sale)"
    and "\<not> raises e Update_one"
    and "raises e Insert_one \<or> \<not> inserted_id e"
  shows "\<exists>x db'. add_new_sale e db sale = (Inl x, db')
    \<and> x = (if raises e Insert_one then PyMongoError else HTTPException 500 ''Failed to add sale'')
    \<and> sales_collection db' = sales_collection db
    \<and> inventory_collection db' =
        update_first (\<lambda>d. Products d = product_line sale)
          (\<lambda>d. d\<lparr>Quantity := Quantity item - quantity sale\<rparr>) (inventory_collection db)
    \<and> List.find (\<lambda>d. Products d = product_line sale) (inventory_collection db')
        = Some (item\<lparr>Quantity := Quantity item - quantity sale\<rparr>)"
proof -
  let ?flt = "\<lambda>d. Products d = product_line sale"
  have m: "?flt (item\<lparr>Quantity := Quantity item - quantity sale\<rparr>)"
    using assms(2) by (auto dest: find_Some_iff [THEN iffD1])
  have f: "List.find ?flt (update_first ?flt (\<lambda>d. d\<lparr>Quantity := Quantity item - quantity sale\<rparr>)
             (inventory_collection db))
      = Some (item\<lparr>Quantity := Quantity item - quantity sale\<rparr>)"
    using assms(2) m by (rule find_update_first)
  show ?thesis
    using add_new_sale_reaches_update [OF assms(1) assms(2) assms(3) assms(4) assms(5)] assms(6) f
    by (auto simp: Let_def simp del: fmul.simps)
qed

theorem add_new_sale_insert_failure_witness:
  "\<exists>db'. add_new_sale (quiet\<lparr>raises := (\<lambda>c. c = Insert_one)\<rparr>) shop order = (Inl PyMongoError, db')
    \<and> sales_collection db' = []
    \<and> inventory_collection db' = [crate, widget\<lparr>Quantity := 2\<rparr>]"
proof -
  let ?e = "quiet\<lparr>raises := (\<lambda>c. c = Insert_one)\<rparr>"
  have "\<not> raises ?e Find_one" "\<not> raises ?e Update_one" "raises ?e Insert_one \<or> \<not> inserted_id ?e"
    by simp_all
  moreover have "List.find (\<lambda>d. Products d = product_line order) (inventory_collection shop)
      = Some widget"
    by (simp add: shop_def order_def crate_def widget_def)
  moreover have "\<not> Quantity widget < quantity order" by (simp add: widget_def order_def)
  moreover have "int64 (quantity order)" by (simp add: int64_def order_def)
  ultimately obtain x db' where
    "add_new_sale ?e shop order = (Inl x, db')"
    "x = (if raises ?e Insert_one then PyMongoError else HTTPException 500 ''Failed to add sale'')"
    "sales_collection db' = sales_collection shop"
    "inventory_collection db' =
        update_first (\<lambda>d. Products d = product_line order)
          (\<lambda>d. d\<lparr>Quantity := Quantity widget - quantity order\<rparr>) (inventory_collection shop)"
    using add_new_sale_insert_failure [of ?e order shop widget] by blast
  then show ?thesis by (simp add: shop_def order_def crate_def widget_def)
qed

text \<open>
  Claim C8. The handler first overwrites \<open>date\<close> and \<open>time\<close> with the formatted clock
  readings, so what the request carried there has no effect on the outcome: the result
  and the database are the same for any client-supplied date and time, the returned
  sale carries the clock's strings, and so does the one sale the handler may store.
\<close>

theorem add_new_sale_stamps_date_time:
  "add_new_sale e db (sale\<lparr>date := d, time := t\<rparr>) = add_new_sale e db sale
   \<and> (\<forall>sale'. fst (add_new_sale e db sale) = Inr sale' \<longrightarrow>
         date sale' = strftime_date e \<and> time sale' = strftime_time e)
   \<and> (sales_collection (snd (add_new_sale e db sale)) = sales_collection db
      \<or> (\<exists>s. sales_collection (snd (add_new_sale e db sale)) = sales_collection db @ [s]
             \<and> date s = strftime_date e \<and> time s = strftime_time e))"
proof (intro conjI allI impI)
  show "add_new_sale e db (sale\<lparr>date := d, time := t\<rparr>) = add_new_sale e db sale"
    by (simp add: add_new_sale_def)
next
  fix sale'
  assume "fst (add_new_sale e db sale) = Inr sale'"
  then show "date sale' = strftime_date e" "time sale' = strftime_time e"
    by (auto simp: add_new_sale_def insert_one_def Let_def simp del: fmul.simps
          split: sum.splits option.splits if_splits prod.splits)
next
  show "sales_collection (snd (add_new_sale e db sale)) = sales_collection db
      \<or> (\<exists>s. sales_collection (snd (add_new_sale e db sale)) = sales_collection db @ [s]
             \<and> date s = strftime_date e \<and> time s = strftime_time e)"
    by (auto simp: add_new_sale_def insert_one_def update_one_def Let_def simp del: fmul.simps
          split: sum.splits option.splits if_splits prod.splits)
qed

theorem add_new_sale_stamps_date_time_witness:
  "add_new_sale quiet shop (order\<lparr>date := ''12/31/1999'', time := ''23:59:59''\<rparr>)
     = add_new_sale quiet shop order
   \<and> (\<exists>s. fst (add_new_sale quiet shop order) = Inr s
        \<and> date s = ''11/04/2026'' \<and> time s = ''09:30:00''
        \<and> sales_collection (snd (add_new_sale quiet shop order)) = [s])"
proof -
  note t = add_new_sale_stamps_date_time
    [where e = quiet and db = shop and sale = order and d = "''12/31/1999''" and t = "''23:59:59''"]
  have r: "\<exists>s db'. add_new_sale quiet shop order = (Inr s, db') \<and> sales_collection db' = [s]"
    using add_new_sale_reaches_update [of quiet order shop widget]
    by (simp add: quiet_def shop_def order_def crate_def widget_def int64_def Let_def
          del: fmul.simps)
  then obtain s db' where s: "add_new_sale quiet shop order = (Inr s, db')"
    "sales_collection db' = [s]" by blast
  then have "date s = strftime_date quiet \<and> time s = strftime_time quiet" using t by simp
  then show ?thesis using t s by (simp add: quiet_def)
qed

text \<open>
  Claim C10. With \<open>0 < quantity \<le> stock\<close> (equality included: the check is a strict
  \<open><\<close>) and every storage call succeeding, the handler returns the sale and the matched
  document's quantity becomes stock minus quantity, which is not negative; if no
  inventory document had a negative quantity before, none has one after. The stock is
  taken to be a 64-bit integer, as the store holds it.
\<close>

theorem add_new_sale_keeps_stock_nonnegative:
  assumes "\<not> raises e Find_one" and "\<not> raises e Update_one" and "\<not> raises e Insert_one"
    and "inserted_id e"
    and "List.find (\<lambda>d. Products d = product_line sale) (inventory_collection db) = Some item"
    and "0 < quantity sale"
    and "quantity sale \<le> Quantity item"
    and "int64 (Quantity item)"
  shows "\<exists>sale' db'. add_new_sale e db sale = (Inr sale', db')
    \<and> List.find (\<lambda>d. Products d = product_line sale) (inventory_collection db')
        = Some (item\<lparr>Quantity := Quantity item - quantity sale\<rparr>)
    \<and> 0 \<le> Quantity item - quantity sale
    \<and> ((\<forall>d \<in> set (inventory_collection db). 0 \<le> Quantity d) \<longrightarrow>
        (\<forall>d \<in> set (inventory_collection db'). 0 \<le> Quantity d))"
proof -
  let ?flt = "\<lambda>d. Products d = product_line sale"
  let ?f = "\<lambda>d::inventory_doc. d\<lparr>Quantity := Quantity item - quantity sale\<rparr>"
  have c: "\<not> Quantity item < quantity sale" using assms(7) by simp
  have i: "int64 (quantity sale)" using assms(6,7,8) by (simp add: int64_def)
  have m: "?flt (?f item)"
    using assms(5) by (auto dest: find_Some_iff [THEN iffD1])
  have f: "List.find ?flt (update_first ?flt ?f (inventory_collection db)) = Some (?f item)"
    using assms(5) m by (rule find_update_first)
  have s: "set (update_first ?flt ?f (inventory_collection db))
      \<subseteq> insert (?f item) (set (inventory_collection db))"
    using assms(5) by (rule set_update_first)
  have n: "0 \<le> Quantity item - quantity sale" using assms(7) by simp
  have p: "\<forall>d \<in> set (update_first ?flt ?f (inventory_collection db)). 0 \<le> Quantity d"
    if "\<forall>d \<in> set (inventory_collection db). 0 \<le> Quantity d"
    using that s n by auto
  show ?thesis
    using add_new_sale_reaches_update [OF assms(1) assms(5) c i assms(2)] assms(3,4) f n p
    by (auto simp: Let_def simp del: fmul.simps)
qed

theorem add_new_sale_keeps_stock_nonnegative_witness:
  "\<exists>sale' db'. add_new_sale quiet shop (order\<lparr>quantity := 5\<rparr>) = (Inr sale', db')
     \<and> List.find (\<lambda>d. Products d = ''Widget'') (inventory_collection db')
         = Some (widget\<lparr>Quantity := 0\<rparr>)
     \<and> (\<forall>d \<in> set (inventory_collection db'). 0 \<le> Quantity d)"
proof -
  let ?o = "order\<lparr>quantity := 5\<rparr>"
  have "\<not> raises quiet Find_one" "\<not> raises quiet Update_one" "\<not> raises quiet Insert_one"
    "inserted_id quiet" by (simp_all add: quiet_def)
  moreover have "List.find (\<lambda>d. Products d = product_line ?o) (inventory_collection shop)
      = Some widget"
    by (simp add: shop_def order_def crate_def widget_def)
  moreover have "0 < quantity ?o" "quantity ?o \<le> Quantity widget" "int64 (Quantity widget)"
    by (simp_all add: widget_def int64_def)
  ultimately obtain sale' db' where r: "add_new_sale quiet shop ?o = (Inr sale', db')"
      "List.find (\<lambda>d. Products d = product_line ?o) (inventory_collection db')
        = Some (widget\<lparr>Quantity := Quantity widget - quantity ?o\<rparr>)"
      "(\<forall>d \<in> set (inventory_collection shop). 0 \<le> Quantity d) \<longrightarrow>
        (\<forall>d \<in> set (inventory_collection db'). 0 \<le> Quantity d)"
    using add_new_sale_keeps_stock_nonnegative [of quiet ?o shop widget] by blast
  have "\<forall>d \<in> set (inventory_collection shop). 0 \<le> Quantity d"
    by (simp add: shop_def crate_def widget_def)
  with r show ?thesis by (simp add: order_def widget_def)
qed

lemma warning_loop_low:
  assumes "\<forall>d \<in> set items. Quantity d < 10"
  shows "warning_loop items acc =
    (case items of [] \<Rightarrow> Inr acc
     | item # _ \<Rightarrow> Inl (HTTPException 200
         (''Warning: Product ('' @ Products item @ '') quantity is low. Current quantity: ''
          @ str_int (Quantity item))))"
  using assms by (cases items) (simp_all add: handle_quantity_warning_def)

text \<open>
  Claim C5, what the code does. Every document the query returns has a quantity below
  ten, so the call to \<open>handle_quantity_warning\<close> in the first round of the loop raises
  \<open>HTTPException(200, "Warning: ...")\<close> for the first such document and the handler ends
  there: the list is returned only when it is empty.
\<close>

theorem check_low_quantity_warning_raises_on_first_low_item:
  assumes "\<not> raises e Find"
  shows "check_low_quantity_warning e db =
    (case filter (\<lambda>d. Quantity d < 10) (inventory_collection db) of
       [] \<Rightarrow> Inr []
     | item # _ \<Rightarrow> Inl (HTTPException 200
         (''Warning: Product ('' @ Products item @ '') quantity is low. Current quantity: ''
          @ str_int (Quantity item))))"
proof -
  let ?low = "filter (\<lambda>d. Quantity d < 10) (inventory_collection db)"
  have "\<forall>d \<in> set (take 100 ?low). Quantity d < 10"
    by (auto dest: in_set_takeD)
  then have "warning_loop (take 100 ?low) [] =
    (case take 100 ?low of [] \<Rightarrow> Inr []
     | item # _ \<Rightarrow> Inl (HTTPException 200
         (''Warning: Product ('' @ Products item @ '') quantity is low. Current quantity: ''
          @ str_int (Quantity item))))"
    by (rule warning_loop_low)
  moreover have "(case take 100 ?low of [] \<Rightarrow> a | item # _ \<Rightarrow> f item)
      = (case ?low of [] \<Rightarrow> a | item # _ \<Rightarrow> f item)" for a :: "exn + (string \<times> int) list" and f
    by (cases ?low) simp_all
  ultimately show ?thesis
    using assms by (simp add: check_low_quantity_warning_def find_to_list_def)
qed

theorem check_low_quantity_warning_raises_on_first_low_item_witness:
  "\<not> raises quiet Find
   \<and> check_low_quantity_warning quiet shop =
       Inl (HTTPException 200 ''Warning: Product (Widget) quantity is low. Current quantity: 5'')"
  using check_low_quantity_warning_raises_on_first_low_item [of quiet shop]
  by (simp add: quiet_def shop_def crate_def widget_def str_int_def digit_char_def)

lemma update_first_no_match:
  "List.find flt docs = None \<Longrightarrow> update_first flt f docs = docs"
  by (induction docs) (auto split: if_splits)

text \<open>
  Claim C6, what the code does. In \<open>get_item\<close> and \<open>update_inventory\<close> the not-found
  exception is raised inside the \<open>try\<close> whose \<open>except Exception\<close> turns every exception
  into \<open>HTTPException(500, "Internal Server Error")\<close>: an id that matches no document
  gives 500, and neither handler ever answers 404.
\<close>

theorem inventory_item_absent_gives_500:
  "(\<not> raises e Find_one \<and>
      List.find (\<lambda>d. mongo_id d = StrId item_id) (inventory_collection db) = None \<longrightarrow>
      get_item e db item_id = Inl (HTTPException 500 ''Internal Server Error''))
   \<and> (\<not> raises e Update_one \<and> ObjectId item_id = Inr object_id \<and>
      List.find (\<lambda>d. mongo_id d = object_id) (inventory_collection db) = None \<longrightarrow>
      update_inventory e db item_id updated_item
        = (Inl (HTTPException 500 ''Internal Server Error''), db))
   \<and> get_item e db item_id \<noteq> Inl (HTTPException 404 detail)
   \<and> fst (update_inventory e db item_id updated_item) \<noteq> Inl (HTTPException 404 detail)"
proof (intro conjI impI)
  assume "\<not> raises e Find_one \<and>
      List.find (\<lambda>d. mongo_id d = StrId item_id) (inventory_collection db) = None"
  then show "get_item e db item_id = Inl (HTTPException 500 ''Internal Server Error'')"
    by (simp add: get_item_def find_one_def try_except_def handle_internal_server_error_def)
next
  assume "\<not> raises e Update_one \<and> ObjectId item_id = Inr object_id \<and>
      List.find (\<lambda>d. mongo_id d = object_id) (inventory_collection db) = None"
  then show "update_inventory e db item_id updated_item
        = (Inl (HTTPException 500 ''Internal Server Error''), db)"
    by (simp add: update_inventory_def update_one_def modified_count_def try_except_def
          handle_internal_server_error_def update_first_no_match)
next
  show "get_item e db item_id \<noteq> Inl (HTTPException 404 detail)"
    by (simp add: get_item_def try_except_def handle_internal_server_error_def
          split: sum.splits option.splits)
next
  show "fst (update_inventory e db item_id updated_item) \<noteq> Inl (HTTPException 404 detail)"
    by (simp add: update_inventory_def try_except_def handle_internal_server_error_def
          split: sum.splits option.splits prod.splits)
qed

theorem inventory_item_absent_gives_500_witness:
  "get_item quiet shop ''crate-2'' = Inl (HTTPException 500 ''Internal Server Error'')
   \<and> update_inventory quiet shop ''0123456789abcdefABCDEF01''
        \<lparr>upd_Products = None, upd_Quantity = Some 7\<rparr>
      = (Inl (HTTPException 500 ''Internal Server Error''), shop)"
proof -
  have o: "ObjectId ''0123456789abcdefABCDEF01''
      = Inr (Oid [0, 1, 2, 3, 4, 5, 6, 7, 8, 9, 10, 11, 12, 13, 14, 15, 10, 11, 12, 13, 14, 15, 0, 1])"
    by (simp add: ObjectId_def hex_digit_def)
  have "\<not> raises quiet Find_one" "\<not> raises quiet Update_one" by (simp_all add: quiet_def)
  moreover have "List.find (\<lambda>d. mongo_id d = StrId ''crate-2'') (inventory_collection shop) = None"
    by (simp add: shop_def crate_def widget_def)
  moreover have "List.find
      (\<lambda>d. mongo_id d = Oid [0, 1, 2, 3, 4, 5, 6, 7, 8, 9, 10, 11, 12, 13, 14, 15, 10, 11, 12, 13, 14, 15, 0, 1])
      (inventory_collection shop) = None"
    by (simp add: shop_def crate_def widget_def)
  ultimately show ?thesis
    using o inventory_item_absent_gives_500
      [where e = quiet and db = shop and item_id = "''crate-2''"]
      inventory_item_absent_gives_500
      [where e = quiet and db = shop and item_id = "''0123456789abcdefABCDEF01''"
         and updated_item = "\<lparr>upd_Products = None, upd_Quantity = Some 7\<rparr>"]
    by blast
qed

lemma ilog2_upper:
  assumes "0 < r"
  shows "r < pow2 (ilog2 r + 1)"
proof -
  obtain p q where pq: "quotient_of r = (p, q)" by (cases "quotient_of r")
  have q: "0 < q" using pq by (rule quotient_of_denom_pos)
  have r: "r = of_int p / of_int q" using pq by (rule quotient_of_div)
  have p: "0 < p" using assms q r by (simp add: zero_less_divide_iff)
  let ?d = "bitlen p - bitlen q"
  have bq: "1 \<le> bitlen q" using q by (simp add: bitlen_ge_iff_power)
  have bp: "0 \<le> bitlen p" by (rule bitlen_nonneg)
  have hi: "p < 2 ^ nat (bitlen p)" using bitlen_bounds [OF p] by simp
  have lo: "(2::int) ^ nat (bitlen q - 1) \<le> q" using bitlen_bounds [OF q] by simp
  have hi': "of_int p < pow2 (bitlen p)"
  proof -
    have "(of_int p :: rat) < of_int (2 ^ nat (bitlen p))" using hi by (simp only: of_int_less_iff)
    also have "\<dots> = pow2 (bitlen p)" using bp by (simp add: pow2_def)
    finally show ?thesis .
  qed
  have lo': "pow2 (bitlen q - 1) \<le> of_int q"
  proof -
    have "pow2 (bitlen q - 1) = of_int (2 ^ nat (bitlen q - 1))" using bq by (simp add: pow2_def)
    also have "\<dots> \<le> of_int q" using lo by (simp only: of_int_le_iff)
    finally show ?thesis .
  qed
  have "of_int p / of_int q < pow2 (bitlen p) / pow2 (bitlen q - 1)"
    using hi' lo' p pow2_pos [of "bitlen q - 1"] by (intro frac_less) simp_all
  also have "\<dots> = pow2 (?d + 1)"
    by (simp add: pow2_powi power_int_diff [symmetric] algebra_simps)
  finally have up: "r < pow2 (?d + 1)" using r by simp
  show ?thesis
  proof (cases "pow2 ?d \<le> r")
    case True
    then show ?thesis using pq up by (simp add: ilog2_def Let_def)
  next
    case False
    then show ?thesis using pq by (simp add: ilog2_def Let_def)
  qed
qed

lemma ilog2_ge:
  assumes "pow2 k \<le> r"
  shows "k \<le> ilog2 r"
proof (rule ccontr)
  assume "\<not> k \<le> ilog2 r"
  then have "ilog2 r + 1 \<le> k" by simp
  then have "pow2 (ilog2 r + 1) \<le> pow2 k" by (rule pow2_mono)
  moreover have "0 < r" using assms pow2_pos [of k] by simp
  then have "r < pow2 (ilog2 r + 1)" by (rule ilog2_upper)
  ultimately show False using assms by simp
qed

lemma round_half_even_ge: "\<lfloor>x\<rfloor> \<le> round_half_even x"
  by (simp add: round_half_even_def Let_def)

lemma round_mag_ge_pow2:
  assumes "pow2 1024 \<le> r"
  shows "pow2 1024 \<le> round_mag r"
proof -
  have r0: "0 < r" using assms pow2_pos [of 1024] by simp
  let ?e = "ilog2 r"
  have e: "1024 \<le> ?e" using assms by (rule ilog2_ge)
  then have m: "max ?e (- 1022) = ?e" by simp
  let ?u = "pow2 (?e - 52)"
  have u: "0 < ?u" by (rule pow2_pos)
  have "pow2 ?e \<le> r" using r0 by (rule ilog2_lower)
  then have "pow2 ?e / ?u \<le> r / ?u" using u by (simp add: divide_right_mono)
  moreover have "pow2 ?e / ?u = of_int (2 ^ 52)"
    by (simp add: pow2_powi power_int_diff [symmetric])
  ultimately have "of_int (2 ^ 52) \<le> r / ?u" by simp
  then have "2 ^ 52 \<le> \<lfloor>r / ?u\<rfloor>" by (simp only: le_floor_iff)
  then have "2 ^ 52 \<le> round_half_even (r / ?u)"
    using round_half_even_ge [of "r / ?u"] by (rule order_trans)
  then have "(of_int (2 ^ 52) :: rat) \<le> of_int (round_half_even (r / ?u))"
    by (simp only: of_int_le_iff)
  then have "of_int (2 ^ 52) * ?u \<le> of_int (round_half_even (r / ?u)) * ?u"
    using u by (intro mult_right_mono) simp_all
  moreover have "of_int (2 ^ 52) * ?u = pow2 ?e"
    by (simp add: pow2_powi power_int_diff field_simps)
  moreover have "pow2 1024 \<le> pow2 ?e" using e by (rule pow2_mono)
  ultimately show ?thesis using r0 m by (simp add: round_mag_def Let_def)
qed

lemma float_of_int_overflow:
  assumes "2 ^ 1024 \<le> \<bar>n\<bar>"
  shows "float_of_int n = Inl OverflowError"
proof -
  have "(of_int (2 ^ 1024) :: rat) \<le> of_int \<bar>n\<bar>" using assms by (simp only: of_int_le_iff)
  then have "pow2 1024 \<le> of_int \<bar>n\<bar>" by (simp add: pow2_def)
  then have g: "pow2 1024 \<le> round_mag (of_int \<bar>n\<bar>)" by (rule round_mag_ge_pow2)
  then have "1024 \<le> ilog2 (round_mag (of_int \<bar>n\<bar>))" by (rule ilog2_ge)
  moreover have "round_mag (of_int \<bar>n\<bar>) \<noteq> 0" using g pow2_pos [of 1024] by auto
  ultimately show ?thesis by (simp add: float_of_int_def overflows_def)
qed


lemma add_new_sale_after_check:
  assumes "\<not> raises e Find_one"
    and "List.find (\<lambda>d. Products d = product_line sale) (inventory_collection db) = Some item"
    and "\<not> Quantity item < quantity sale"
    and "float_of_int (quantity sale) = Inr q"
  shows "add_new_sale e db sale =
    (let sale' = sale\<lparr>date := strftime_date e, time := strftime_time e,
               total_s := fmul (fmul (unit_price sale) q) (float_literal (95 / 100)),
               tax_5_percent := fmul (fmul (unit_price sale) q) (float_literal (5 / 100))\<rparr>;
         db' = db\<lparr>inventory_collection :=
                update_first (\<lambda>d. Products d = product_line sale)
                  (\<lambda>d. d\<lparr>Quantity := Quantity item - quantity sale\<rparr>) (inventory_collection db)\<rparr>
     in if raises e Update_one then (Inl PyMongoError, db)
        else if raises e Insert_one then (Inl PyMongoError, db')
        else if inserted_id e then (Inr sale', db'\<lparr>sales_collection := sales_collection db @ [sale']\<rparr>)
        else (Inl (HTTPException 500 ''Failed to add sale''), db'))"
  using assms
  by (simp add: add_new_sale_def find_one_def update_one_def insert_one_def Let_def
        del: fmul.simps)

lemma add_new_sale_overflow:
  assumes "\<not> raises e Find_one"
    and "List.find (\<lambda>d. Products d = product_line sale) (inventory_collection db) = Some item"
    and "\<not> Quantity item < quantity sale"
    and "2 ^ 1024 \<le> \<bar>quantity sale\<bar>"
  shows "add_new_sale e db sale = (Inl OverflowError, db)"
  using assms(1-3) float_of_int_overflow [OF assms(4)]
  by (simp add: add_new_sale_def find_one_def)

text \<open>
  Claim C9 as stated fails: a quantity too large in magnitude for a float is turned away.
  With 5 in stock and every storage call succeeding, a request for \<open>-10\<^sup>4\<^sup>0\<^sup>0\<close> passes the
  stock check and then raises \<open>OverflowError\<close> at \<open>unit_price * quantity\<close>; the inventory
  is as it was.
\<close>

theorem add_new_sale_huge_negative_quantity_raises:
  "List.find (\<lambda>d. Products d = product_line (order\<lparr>quantity := - (10 ^ 400)\<rparr>))
      (inventory_collection shop) = Some widget
   \<and> 0 \<le> Quantity widget
   \<and> quantity (order\<lparr>quantity := - (10 ^ 400)\<rparr>) \<le> 0
   \<and> \<not> raises quiet Find_one \<and> \<not> raises quiet Update_one \<and> \<not> raises quiet Insert_one
   \<and> inserted_id quiet
   \<and> add_new_sale quiet shop (order\<lparr>quantity := - (10 ^ 400)\<rparr>) = (Inl OverflowError, shop)"
proof -
  let ?o = "order\<lparr>quantity := - (10 ^ 400)\<rparr>"
  have f: "List.find (\<lambda>d. Products d = product_line ?o) (inventory_collection shop) = Some widget"
    by (simp add: shop_def order_def crate_def widget_def)
  have r: "\<not> raises quiet Find_one" "\<not> raises quiet Update_one" "\<not> raises quiet Insert_one"
    "inserted_id quiet" by (simp_all add: quiet_def)
  have s: "0 \<le> Quantity widget" "quantity ?o \<le> 0" "\<not> Quantity widget < quantity ?o"
    by (simp_all add: widget_def)
  have b: "2 ^ 1024 \<le> \<bar>quantity ?o\<bar>" by simp
  have "add_new_sale quiet shop ?o = (Inl OverflowError, shop)"
    using r(1) f s(3) b by (rule add_new_sale_overflow)
  with f r s show ?thesis by blast
qed

text \<open>
  Claim C9, as the code has it. With a stock that is not negative, a requested quantity
  that is zero or negative and that Python can convert to a float (every 64-bit integer
  is such), and every storage call succeeding, the stock check passes, the handler
  returns the sale and sets the matched document's quantity to stock minus quantity,
  which for a negative quantity is more than the stock.
\<close>

theorem add_new_sale_nonpositive_quantity:
  assumes "\<not> raises e Find_one" and "\<not> raises e Update_one" and "\<not> raises e Insert_one"
    and "inserted_id e"
    and "List.find (\<lambda>d. Products d = product_line sale) (inventory_collection db) = Some item"
    and "0 \<le> Quantity item"
    and "quantity sale \<le> 0"
    and "float_of_int (quantity sale) = Inr q"
  shows "\<not> Quantity item < quantity sale
    \<and> (\<exists>sale' db'. add_new_sale e db sale = (Inr sale', db')
        \<and> quantity sale' = quantity sale
        \<and> sales_collection db' = sales_collection db @ [sale']
        \<and> List.find (\<lambda>d. Products d = product_line sale) (inventory_collection db')
            = Some (item\<lparr>Quantity := Quantity item - quantity sale\<rparr>)
        \<and> (quantity sale < 0 \<longrightarrow> Quantity item < Quantity item - quantity sale))"
proof -
  let ?flt = "\<lambda>d. Products d = product_line sale"
  have c: "\<not> Quantity item < quantity sale" using assms(6,7) by simp
  have m: "?flt (item\<lparr>Quantity := Quantity item - quantity sale\<rparr>)"
    using assms(5) by (auto dest: find_Some_iff [THEN iffD1])
  have f: "List.find ?flt (update_first ?flt (\<lambda>d. d\<lparr>Quantity := Quantity item - quantity sale\<rparr>)
             (inventory_collection db))
      = Some (item\<lparr>Quantity := Quantity item - quantity sale\<rparr>)"
    using assms(5) m by (rule find_update_first)
  show ?thesis
    using add_new_sale_after_check [OF assms(1) assms(5) c assms(8)] assms(2,3,4) f c
    by (auto simp: Let_def simp del: fmul.simps)
qed

theorem add_new_sale_nonpositive_quantity_witness:
  "\<exists>sale' db'. add_new_sale quiet shop (order\<lparr>quantity := - 4\<rparr>) = (Inr sale', db')
     \<and> quantity sale' = - 4
     \<and> inventory_collection db' = [crate, widget\<lparr>Quantity := 9\<rparr>]"
proof -
  let ?o = "order\<lparr>quantity := - 4\<rparr>"
  have "\<not> raises quiet Find_one" "\<not> raises quiet Update_one" "\<not> raises quiet Insert_one"
    "inserted_id quiet" by (simp_all add: quiet_def)
  moreover have "List.find (\<lambda>d. Products d = product_line ?o) (inventory_collection shop)
      = Some widget"
    by (simp add: shop_def order_def crate_def widget_def)
  moreover have "0 \<le> Quantity widget" "quantity ?o \<le> 0" by (simp_all add: widget_def)
  moreover have "float_of_int (quantity ?o) = Inr (float_int (quantity ?o))"
    by (rule float_of_int_int64) (simp add: int64_def)
  ultimately obtain sale' db' where r: "add_new_sale quiet shop ?o = (Inr sale', db')"
      "quantity sale' = quantity ?o"
    using add_new_sale_nonpositive_quantity [of quiet ?o shop widget "float_int (quantity ?o)"]
    by blast
  have "inventory_collection (snd (add_new_sale quiet shop ?o)) = [crate, widget\<lparr>Quantity := 9\<rparr>]"
    using add_new_sale_reaches_update [of quiet ?o shop widget]
    by (simp add: quiet_def shop_def order_def crate_def widget_def int64_def Let_def
          del: fmul.simps)
  with r show ?thesis by simp
qed

section \<open>Storage exceptions at the handlers\<close>






















end
